theory Spec2Isabelle
  imports Complex_Main
begin

section \<open>Intensity entries and the colour policy\<close>

text \<open>
  The Go struct \<open>IntensityQuery\<close> of \<open>main.go\<close>. Go's \<open>int\<close> is a 64-bit integer;
  the program only compares and copies these values, so they are modelled by \<open>int\<close>.
\<close>

record IntensityQuery =
  ID :: int
  Scale :: int

text \<open>
  \<open>intensityToColor\<close>: the \<open>switch\<close> with its eight cases in the order of the source,
  followed by the \<open>default\<close> branch and its two comparisons.
\<close>

definition intensityToColor :: "int \<Rightarrow> string" where
  "intensityToColor scale =
     (if scale = 0 then ''#27272a''
      else if scale = 1 then ''#bae6fd''
      else if scale = 2 then ''#4ade80''
      else if scale = 3 then ''#facc15''
      else if scale = 4 then ''#f97316''
      else if scale = 5 then ''#dc2626''
      else if scale = 6 then ''#86198f''
      else if scale = 7 then ''#500724''
      else if scale > 6 then ''#4a044e''
      else if scale > 5 then ''#b91c1c''
      else ''#27272a'')"


section \<open>The feature collection\<close>

text \<open>
  The parts of the \<open>go.geojson\<close> types that \<open>main.go\<close> reads. A property value is an
  \<open>interface{}\<close> holding whatever the JSON decoder produced; only the \<open>float64\<close> case is
  told apart by the program. A position is a slice of \<open>float64\<close> (the decoder does not
  check its length), a ring a slice of positions. \<open>Geometry\<close> is a pointer that is
  \<open>nil\<close> for a feature without geometry.

  A \<open>float64\<close> read from JSON text is finite and is written as the \<open>real\<close> it denotes;
  comparisons of such values are comparisons of those reals. No arithmetic is done
  on that type: the arithmetic of \<open>funcToScreen\<close> is that of the machine (below).
\<close>

datatype jvalue = JNumber real | JString string | JBool bool | JNull | JComposite

record Geometry =
  Type :: string
  Polygon :: "real list list list"
  MultiPolygon :: "real list list list list"

record Feature =
  Properties :: "string \<rightharpoonup> jvalue"
  Geometry :: "Geometry option"

record FeatureCollection =
  Features :: "Feature list"

text \<open>The run-time panics the handler can raise.\<close>

datatype go_panic = InterfaceConversion | NilDereference | IndexOutOfRange nat nat

text \<open>
  \<open>feature.Properties["id"].(float64)\<close>, the unchecked form used by \<open>calculateBounds\<close>:
  a missing key yields the \<open>nil\<close> interface, and the assertion panics on everything
  that is not a \<open>float64\<close>.
\<close>

definition assertFloat64 :: "jvalue option \<Rightarrow> go_panic + real" where
  "assertFloat64 v = (case v of Some (JNumber x) \<Rightarrow> Inr x | _ \<Rightarrow> Inl InterfaceConversion)"

text \<open>
  The conversion \<open>int(x)\<close> of a \<open>float64\<close> discards the fraction (truncation towards
  zero) when the result fits the 64-bit \<open>int\<close>. When it does not, Go leaves the result
  to the implementation: \<open>outOfRange\<close> is what the machine at hand yields then.
\<close>

definition float64ToInt :: "(real \<Rightarrow> int) \<Rightarrow> real \<Rightarrow> int" where
  "float64ToInt outOfRange x =
     (let t = (if 0 \<le> x then \<lfloor>x\<rfloor> else \<lceil>x\<rceil>)
      in if - 9223372036854775808 \<le> t \<and> t \<le> 9223372036854775807 then t else outOfRange x)"

text \<open>\<open>coord[i]\<close>: an index beyond the slice panics.\<close>

definition index :: "real list \<Rightarrow> nat \<Rightarrow> go_panic + real" where
  "index coord i = (if i < length coord then Inr (coord ! i) else Inl (IndexOutOfRange i (length coord)))"

section \<open>The bounding box of the active regions\<close>

text \<open>
  The program's own \<open>min\<close> and \<open>max\<close> on \<open>float64\<close>, over the comparison \<open><\<close> of the
  type the values are written in.
\<close>

definition min_go :: "('a \<Rightarrow> 'a \<Rightarrow> bool) \<Rightarrow> 'a \<Rightarrow> 'a \<Rightarrow> 'a" where
  "min_go lt a b = (if lt a b then a else b)"

definition max_go :: "('a \<Rightarrow> 'a \<Rightarrow> bool) \<Rightarrow> 'a \<Rightarrow> 'a \<Rightarrow> 'a" where
  "max_go lt a b = (if lt b a then a else b)"

text \<open>The four named results \<open>minLon, minLat, maxLon, maxLat\<close> of \<open>calculateBounds\<close>.\<close>

type_synonym bounds = "real \<times> real \<times> real \<times> real"

text \<open>The body of the innermost loop: read \<open>coord[0]\<close>, \<open>coord[1]\<close> and widen the box.\<close>

definition expandBounds :: "bounds \<Rightarrow> real list \<Rightarrow> go_panic + bounds" where
  "expandBounds b coord =
     (case b of (minLon, minLat, maxLon, maxLat) \<Rightarrow>
        (case index coord 0 of Inl p \<Rightarrow> Inl p | Inr lon \<Rightarrow>
        (case index coord 1 of Inl p \<Rightarrow> Inl p | Inr lat \<Rightarrow>
           Inr (min_go (<) minLon lon, min_go (<) minLat lat,
                max_go (<) maxLon lon, max_go (<) maxLat lat))))"

text \<open>\<open>for _, coord := range ring\<close>\<close>

fun boundsRing :: "real list list \<Rightarrow> bounds \<Rightarrow> go_panic + bounds" where
  "boundsRing [] b = Inr b"
| "boundsRing (coord # ring) b =
     (case expandBounds b coord of Inl p \<Rightarrow> Inl p | Inr b' \<Rightarrow> boundsRing ring b')"

text \<open>\<open>for _, ring := range polygon\<close>\<close>

fun boundsPolygon :: "real list list list \<Rightarrow> bounds \<Rightarrow> go_panic + bounds" where
  "boundsPolygon [] b = Inr b"
| "boundsPolygon (ring # polygon) b =
     (case boundsRing ring b of Inl p \<Rightarrow> Inl p | Inr b' \<Rightarrow> boundsPolygon polygon b')"

text \<open>\<open>for _, polygon := range feature.Geometry.MultiPolygon\<close>\<close>

fun boundsMultiPolygon :: "real list list list list \<Rightarrow> bounds \<Rightarrow> go_panic + bounds" where
  "boundsMultiPolygon [] b = Inr b"
| "boundsMultiPolygon (polygon # multi) b =
     (case boundsPolygon polygon b of Inl p \<Rightarrow> Inl p | Inr b' \<Rightarrow> boundsMultiPolygon multi b')"

text \<open>\<open>scaleMap[id]\<close>: a missing key reads as 0.\<close>

definition lookup0 :: "(int \<rightharpoonup> int) \<Rightarrow> int \<Rightarrow> int" where
  "lookup0 scaleMap i = (case scaleMap i of None \<Rightarrow> 0 | Some v \<Rightarrow> v)"

text \<open>
  One iteration of the loop over the features: the identifier is asserted first, a
  region of severity 0 is skipped, and only then the geometry is dereferenced and
  dispatched on its type; any other type leaves the box as it is.
\<close>

definition boundsFeature :: "(real \<Rightarrow> int) \<Rightarrow> (int \<rightharpoonup> int) \<Rightarrow> Feature \<Rightarrow> bounds \<Rightarrow> go_panic + bounds" where
  "boundsFeature outOfRange scaleMap feature b =
     (case assertFloat64 (Properties feature ''id'') of Inl p \<Rightarrow> Inl p | Inr v \<Rightarrow>
        if lookup0 scaleMap (float64ToInt outOfRange v) = 0 then Inr b
        else (case Geometry feature of None \<Rightarrow> Inl NilDereference | Some g \<Rightarrow>
                if Type g = ''Polygon'' then boundsPolygon (Polygon g) b
                else if Type g = ''MultiPolygon'' then boundsMultiPolygon (MultiPolygon g) b
                else Inr b))"

fun boundsFeatures :: "(real \<Rightarrow> int) \<Rightarrow> (int \<rightharpoonup> int) \<Rightarrow> Feature list \<Rightarrow> bounds \<Rightarrow> go_panic + bounds" where
  "boundsFeatures outOfRange scaleMap [] b = Inr b"
| "boundsFeatures outOfRange scaleMap (feature # features) b =
     (case boundsFeature outOfRange scaleMap feature b of Inl p \<Rightarrow> Inl p
      | Inr b' \<Rightarrow> boundsFeatures outOfRange scaleMap features b')"

definition calculateBounds :: "(real \<Rightarrow> int) \<Rightarrow> FeatureCollection \<Rightarrow> (int \<rightharpoonup> int) \<Rightarrow> go_panic + bounds" where
  "calculateBounds outOfRange fc scaleMap =
     boundsFeatures outOfRange scaleMap (Features fc) (180, 90, - 180, - 90)"

section \<open>The projection\<close>

text \<open>
  The \<open>float64\<close> arithmetic of the machine the program runs on: its values \<open>'f\<close>
  (finite numbers, infinities, NaN), the four rounded operations, \<open>math.Cos\<close>, the
  comparison \<open><\<close>, and the result of \<open>int(x)\<close> where \<open>x\<close> does not fit. \<open>lit x\<close> is the
  \<open>float64\<close> of a finite value \<open>x\<close> or of a constant of the program (for a constant
  that is no \<open>float64\<close>, such as 0.1 or \<open>math.Pi\<close>, the one the compiler rounds it to).
  Nothing is assumed of these operations.
\<close>

record 'f Machine =
  lit :: "real \<Rightarrow> 'f"
  fadd :: "'f \<Rightarrow> 'f \<Rightarrow> 'f"
  fsub :: "'f \<Rightarrow> 'f \<Rightarrow> 'f"
  fmul :: "'f \<Rightarrow> 'f \<Rightarrow> 'f"
  fdiv :: "'f \<Rightarrow> 'f \<Rightarrow> 'f"
  fcos :: "'f \<Rightarrow> 'f"
  fless :: "'f \<Rightarrow> 'f \<Rightarrow> bool"
  intOutOfRange :: "real \<Rightarrow> int"

text \<open>
  The closure \<open>funcToScreen\<close> of \<open>mapHandler\<close>, with the box it captures as its second
  argument: the operations of the source, one by one and in its order, on the machine.
  \<open>CANVAS_WIDTH\<close> and \<open>CANVAS_HEIGHT\<close> are the constants of the handler; \<open>CANVAS_WIDTH / 2\<close>
  and \<open>CANVAS_HEIGHT / 2\<close> are constant expressions, which the compiler evaluates.
\<close>

definition CANVAS_WIDTH :: real where
  "CANVAS_WIDTH = 1280"

definition CANVAS_HEIGHT :: real where
  "CANVAS_HEIGHT = 720"

definition funcToScreen :: "'f Machine \<Rightarrow> bounds \<Rightarrow> real \<Rightarrow> real \<Rightarrow> 'f \<times> 'f" where
  "funcToScreen mc b lon lat =
     (case b of (minLon, minLat, maxLon, maxLat) \<Rightarrow>
        let margin = lit mc 0.1;
            effectiveWidth = fmul mc (lit mc CANVAS_WIDTH) (fsub mc (lit mc 1) (fmul mc (lit mc 2) margin));
            effectiveHeight = fmul mc (lit mc CANVAS_HEIGHT) (fsub mc (lit mc 1) (fmul mc (lit mc 2) margin));
            centerLat = fdiv mc (fadd mc (lit mc maxLat) (lit mc minLat)) (lit mc 2);
            centerLon = fdiv mc (fadd mc (lit mc maxLon) (lit mc minLon)) (lit mc 2);
            centerX = lit mc (CANVAS_WIDTH / 2);
            centerY = lit mc (CANVAS_HEIGHT / 2);
            lonCorrection = fcos mc (fdiv mc (fmul mc centerLat (lit mc pi)) (lit mc 180));
            lonSpan = fmul mc (fsub mc (lit mc maxLon) (lit mc minLon)) lonCorrection;
            latSpan = fsub mc (lit mc maxLat) (lit mc minLat);
            scaleX = fdiv mc effectiveWidth lonSpan;
            scaleY = fdiv mc effectiveHeight latSpan;
            scale = min_go (fless mc) scaleX scaleY
        in (fadd mc (fmul mc (fmul mc (fsub mc (lit mc lon) centerLon) lonCorrection) scale) centerX,
            fadd mc (fmul mc (fsub mc centerLat (lit mc lat)) scale) centerY))"

section \<open>The request handler\<close>

text \<open>
  What the handler leaves behind: an error written with \<open>http.Error\<close> (status and
  message), a body written with its \<open>Content-Type\<close>, or a panic. The vector scene is
  kept as the sequence of calls made on the \<open>svgo\<close> canvas, in call order; the library
  turns each call into markup (\<open>Path\<close> into one \<open>path\<close> element).
\<close>

datatype svg_op = Start int int | Rect int int int int string | Path string string | End

datatype payload = Markup "svg_op list" | Raster string

datatype response = HttpError nat string | Written string payload | Panic go_panic

text \<open>\<open>fmt.Sprintf("%d", i)\<close>: the decimal digits, with a minus sign for a negative number.\<close>

definition digitChar :: "nat \<Rightarrow> char" where
  "digitChar n = ''0123456789'' ! n"

fun natDigits :: "nat \<Rightarrow> string" where
  "natDigits n = (if n < 10 then [digitChar n] else natDigits (n div 10) @ [digitChar (n mod 10)])"

declare natDigits.simps [simp del]

definition sprintf_d :: "int \<Rightarrow> string" where
  "sprintf_d i = (if i < 0 then CHR ''-'' # natDigits (nat (- i)) else natDigits (nat i))"

text \<open>The \<open>http.Error\<close> call of the validation loop.\<close>

definition invalidScaleError :: "IntensityQuery \<Rightarrow> response" where
  "invalidScaleError intensity =
     HttpError 400 (''Invalid scale value for ID '' @ sprintf_d (ID intensity)
                      @ '': '' @ sprintf_d (Scale intensity))"

text \<open>
  The loop that validates the entries and fills \<open>scaleMap\<close>. An entry out of range
  ends the request at once with status 400.
\<close>

fun buildScaleMap :: "IntensityQuery list \<Rightarrow> (int \<rightharpoonup> int) \<Rightarrow> response + (int \<rightharpoonup> int)" where
  "buildScaleMap [] scaleMap = Inr scaleMap"
| "buildScaleMap (intensity # rest) scaleMap =
     (if Scale intensity < 0 \<or> Scale intensity > 7 then Inl (invalidScaleError intensity)
      else buildScaleMap rest (scaleMap(ID intensity \<mapsto> Scale intensity)))"

text \<open>
  The path of one ring. \<open>fmt1\<close> stands for \<open>fmt.Sprintf("%.1f", x)\<close>; \<open>i\<close> is the
  loop index and \<open>pathStr\<close> the string built so far.
\<close>

fun ringPath :: "'f Machine \<Rightarrow> ('f \<Rightarrow> string) \<Rightarrow> bounds \<Rightarrow> real list list \<Rightarrow> nat \<Rightarrow> string \<Rightarrow> go_panic + string" where
  "ringPath mc fmt1 b [] i pathStr = Inr pathStr"
| "ringPath mc fmt1 b (coord # ring) i pathStr =
     (case index coord 0 of Inl p \<Rightarrow> Inl p | Inr lon \<Rightarrow>
     (case index coord 1 of Inl p \<Rightarrow> Inl p | Inr lat \<Rightarrow>
     (case funcToScreen mc b lon lat of (x, y) \<Rightarrow>
        ringPath mc fmt1 b ring (Suc i)
          (pathStr @ (if i = 0 then fmt1 x @ '' '' @ fmt1 y
                      else '' L'' @ fmt1 x @ '' '' @ fmt1 y)))))"

text \<open>The loop over the rings of a polygon, appending one closed path per ring.\<close>

fun polygonPaths :: "'f Machine \<Rightarrow> ('f \<Rightarrow> string) \<Rightarrow> bounds \<Rightarrow> real list list list \<Rightarrow> string list \<Rightarrow> go_panic + string list" where
  "polygonPaths mc fmt1 b [] paths = Inr paths"
| "polygonPaths mc fmt1 b (ring # polygon) paths =
     (case ringPath mc fmt1 b ring 0 ''M'' of Inl p \<Rightarrow> Inl p
      | Inr pathStr \<Rightarrow> polygonPaths mc fmt1 b polygon (paths @ [pathStr @ '' Z'']))"

fun multiPolygonPaths :: "'f Machine \<Rightarrow> ('f \<Rightarrow> string) \<Rightarrow> bounds \<Rightarrow> real list list list list \<Rightarrow> string list \<Rightarrow> go_panic + string list" where
  "multiPolygonPaths mc fmt1 b [] paths = Inr paths"
| "multiPolygonPaths mc fmt1 b (polygon # multi) paths =
     (case polygonPaths mc fmt1 b polygon paths of Inl p \<Rightarrow> Inl p
      | Inr paths' \<Rightarrow> multiPolygonPaths mc fmt1 b multi paths')"

text \<open>\<open>paths\<close> of one feature: empty unless the type is one of the two handled.\<close>

definition featurePaths :: "'f Machine \<Rightarrow> ('f \<Rightarrow> string) \<Rightarrow> bounds \<Rightarrow> Geometry \<Rightarrow> go_panic + string list" where
  "featurePaths mc fmt1 b g =
     (if Type g = ''Polygon'' then polygonPaths mc fmt1 b (Polygon g) []
      else if Type g = ''MultiPolygon'' then multiPolygonPaths mc fmt1 b (MultiPolygon g) []
      else Inr [])"

text \<open>\<open>finalPath += p + " "\<close> for every path.\<close>

definition finalPath :: "string list \<Rightarrow> string" where
  "finalPath paths = foldl (\<lambda>acc p. acc @ p @ '' '') [] paths"

definition pathStyle :: "string \<Rightarrow> string" where
  "pathStyle fillColor = ''fill:'' @ fillColor @ '';stroke:#a1a1aa;stroke-width:0.2;fill-opacity:0.8''"

text \<open>
  The body of the drawing loop for one feature. Here the identifier is read with the
  checked assertion (\<open>id, ok := ...\<close>) and the severity with the checked map read;
  the result is the one call \<open>canvas.Path(finalPath, style)\<close>.
\<close>

definition renderFeature :: "'f Machine \<Rightarrow> ('f \<Rightarrow> string) \<Rightarrow> bounds \<Rightarrow> (int \<rightharpoonup> int) \<Rightarrow> Feature \<Rightarrow> response + svg_op" where
  "renderFeature mc fmt1 b scaleMap feature =
     (case Properties feature ''id'' of
        Some (JNumber v) \<Rightarrow>
          (let scaleValue = (case scaleMap (float64ToInt (intOutOfRange mc) v) of
                               Some val \<Rightarrow> val | None \<Rightarrow> 0);
               fillColor = intensityToColor scaleValue
           in case Geometry feature of None \<Rightarrow> Inl (Panic NilDereference)
              | Some g \<Rightarrow>
                 (case featurePaths mc fmt1 b g of Inl p \<Rightarrow> Inl (Panic p)
                  | Inr paths \<Rightarrow> Inr (Path (finalPath paths) (pathStyle fillColor))))
      | _ \<Rightarrow> Inl (HttpError 500 ''Invalid ID format in GeoJSON''))"

text \<open>\<open>for _, feature := range fc.Features\<close>, writing to the canvas.\<close>

fun renderFeatures :: "'f Machine \<Rightarrow> ('f \<Rightarrow> string) \<Rightarrow> bounds \<Rightarrow> (int \<rightharpoonup> int) \<Rightarrow> Feature list \<Rightarrow> svg_op list \<Rightarrow> response + svg_op list" where
  "renderFeatures mc fmt1 b scaleMap [] canvas = Inr canvas"
| "renderFeatures mc fmt1 b scaleMap (feature # features) canvas =
     (case renderFeature mc fmt1 b scaleMap feature of Inl resp \<Rightarrow> Inl resp
      | Inr element \<Rightarrow> renderFeatures mc fmt1 b scaleMap features (canvas @ [element]))"

text \<open>
  The request and the collaborators of the handler that are not part of the program:
  the JSON decoder for the \<open>scale\<close> parameter, the file system, the GeoJSON decoder,
  the float formatter, and the rasteriser behind \<open>svgToPNG\<close> (which also loads the
  font). Each returns either an error text or its result.
\<close>

record Request =
  query :: "string \<rightharpoonup> string"

definition queryGet :: "Request \<Rightarrow> string \<Rightarrow> string" where
  "queryGet r key = (case query r key of None \<Rightarrow> [] | Some v \<Rightarrow> v)"

record 'f Env =
  jsonUnmarshal :: "string \<Rightarrow> string + IntensityQuery list"
  readFile :: "string \<Rightarrow> string + string"
  unmarshalFeatureCollection :: "string \<Rightarrow> string + FeatureCollection"
  sprintf1f :: "'f \<Rightarrow> string"
  svgToPNG :: "svg_op list \<Rightarrow> int \<Rightarrow> int \<Rightarrow> string \<Rightarrow> string + string"

definition mapHandler :: "'f Machine \<Rightarrow> 'f Env \<Rightarrow> Request \<Rightarrow> response" where
  "mapHandler mc env r =
     (let scaleData = queryGet r ''scale'' in
      if scaleData = [] then HttpError 400 ''scale parameter is required''
      else case jsonUnmarshal env scaleData of
        Inl err \<Rightarrow> HttpError 400 (''Invalid scale data format: '' @ err)
      | Inr intensities \<Rightarrow>
     (case buildScaleMap intensities Map.empty of
        Inl resp \<Rightarrow> resp
      | Inr scaleMap \<Rightarrow>
     (case readFile env ''japan.geojson'' of
        Inl err \<Rightarrow> HttpError 500 (''Failed to read geojson: '' @ err)
      | Inr data \<Rightarrow>
     (case unmarshalFeatureCollection env data of
        Inl err \<Rightarrow> HttpError 500 (''Failed to unmarshal geojson: '' @ err)
      | Inr fc \<Rightarrow>
     (case calculateBounds (intOutOfRange mc) fc scaleMap of
        Inl p \<Rightarrow> Panic p
      | Inr b \<Rightarrow>
     (case renderFeatures mc (sprintf1f env) b scaleMap (Features fc)
             [Start 1280 720, Rect 0 0 1280 720 ''fill:#18181b''] of
        Inl resp \<Rightarrow> resp
      | Inr canvas \<Rightarrow>
          (let footerText = queryGet r ''footer'';
               format = queryGet r ''format''
           in if format = ''svg'' then Written ''image/svg+xml'' (Markup (canvas @ [End]))
              else case svgToPNG env (canvas @ [End]) 1280 720 footerText of
                     Inl err \<Rightarrow> HttpError 500 (''Failed to convert svg to png: '' @ err)
                   | Inr pngData \<Rightarrow> Written ''image/png'' (Raster pngData))))))))"

section \<open>What the specification speaks of\<close>

text \<open>
  The definitions of this section are not code of the program: they say, in the words
  of the specification, what the program is compared with.
\<close>

text \<open>The documented colour table for the severities 0 to 7.\<close>

definition documentedColors :: "string list" where
  "documentedColors = [''#27272a'', ''#bae6fd'', ''#4ade80'', ''#facc15'', ''#f97316'',
                       ''#dc2626'', ''#86198f'', ''#500724'']"

text \<open>A valid intensity entry: its severity lies in \<open>[0,7]\<close>.\<close>

definition validEntry :: "IntensityQuery \<Rightarrow> bool" where
  "validEntry q \<longleftrightarrow> 0 \<le> Scale q \<and> Scale q \<le> 7"

text \<open>The severity of the last entry of the sequence that carries the identifier.\<close>

definition lastSeverity :: "IntensityQuery list \<Rightarrow> int \<Rightarrow> int option" where
  "lastSeverity qs i =
     (case filter (\<lambda>q. ID q = i) qs of [] \<Rightarrow> None | e # es \<Rightarrow> Some (Scale (last (e # es))))"

text \<open>
  The rings of a region, flattened: those of a \<open>Polygon\<close>, those of all polygons of a
  \<open>MultiPolygon\<close>, none for any other geometry.
\<close>

definition featureRings :: "Feature \<Rightarrow> real list list list" where
  "featureRings f =
     (case Geometry f of None \<Rightarrow> []
      | Some g \<Rightarrow> if Type g = ''Polygon'' then Polygon g
                  else if Type g = ''MultiPolygon'' then concat (MultiPolygon g)
                  else [])"

text \<open>A feature whose region-identifier property is present and numeric.\<close>

definition hasNumericId :: "Feature \<Rightarrow> bool" where
  "hasNumericId f = (case Properties f ''id'' of Some (JNumber v) \<Rightarrow> True | _ \<Rightarrow> False)"

text \<open>An active region: its severity in the table is not 0 (absent counts as 0).\<close>

definition active :: "(real \<Rightarrow> int) \<Rightarrow> (int \<rightharpoonup> int) \<Rightarrow> Feature \<Rightarrow> bool" where
  "active outOfRange scaleMap f =
     (case Properties f ''id'' of
        Some (JNumber v) \<Rightarrow> lookup0 scaleMap (float64ToInt outOfRange v) \<noteq> 0
      | _ \<Rightarrow> False)"

text \<open>Every position of every ring of every active region, in order.\<close>

definition activeCoords :: "(real \<Rightarrow> int) \<Rightarrow> FeatureCollection \<Rightarrow> (int \<rightharpoonup> int) \<Rightarrow> real list list" where
  "activeCoords outOfRange fc scaleMap =
     concat (concat (map featureRings (filter (active outOfRange scaleMap) (Features fc))))"

definition lonOf :: "real list \<Rightarrow> real" where
  "lonOf coord = coord ! 0"

definition latOf :: "real list \<Rightarrow> real" where
  "latOf coord = coord ! 1"

text \<open>A position that is a longitude and a latitude.\<close>

definition geographic :: "real list \<Rightarrow> bool" where
  "geographic coord \<longleftrightarrow>
     - 180 \<le> lonOf coord \<and> lonOf coord \<le> 180 \<and> - 90 \<le> latOf coord \<and> latOf coord \<le> 90"

text \<open>A box widened, component by component, over a sequence of positions.\<close>

definition widenOver :: "bounds \<Rightarrow> real list list \<Rightarrow> bounds" where
  "widenOver b cs =
     (case b of (minLon, minLat, maxLon, maxLat) \<Rightarrow>
        (fold min (map lonOf cs) minLon, fold min (map latOf cs) minLat,
         fold max (map lonOf cs) maxLon, fold max (map latOf cs) maxLat))"

text \<open>
  A feature collection the bounding-box loop runs through without a panic: every
  feature has a numeric identifier, and every active one has a geometry whose
  positions have a longitude and a latitude.
\<close>

definition wellFormed :: "(real \<Rightarrow> int) \<Rightarrow> FeatureCollection \<Rightarrow> (int \<rightharpoonup> int) \<Rightarrow> bool" where
  "wellFormed outOfRange fc scaleMap \<longleftrightarrow>
     list_all hasNumericId (Features fc)
     \<and> list_all (\<lambda>f. Geometry f \<noteq> None) (filter (active outOfRange scaleMap) (Features fc))
     \<and> list_all (\<lambda>coord. 2 \<le> length coord) (activeCoords outOfRange fc scaleMap)"

text \<open>
  A geometry file as the interface asks for it: every feature carries a numeric
  identifier and a geometry, and every position has a longitude and a latitude.
\<close>

definition drawable :: "FeatureCollection \<Rightarrow> bool" where
  "drawable fc \<longleftrightarrow>
     list_all hasNumericId (Features fc)
     \<and> list_all (\<lambda>f. Geometry f \<noteq> None) (Features fc)
     \<and> list_all (\<lambda>f. list_all (\<lambda>coord. 2 \<le> length coord) (concat (featureRings f))) (Features fc)"

text \<open>The number of \<open>path\<close> elements of a scene, and of regions with at least one ring.\<close>

definition pathCount :: "svg_op list \<Rightarrow> nat" where
  "pathCount scene = length (filter (\<lambda>e. case e of Path d style \<Rightarrow> True | _ \<Rightarrow> False) scene)"

definition regionsWithRings :: "FeatureCollection \<Rightarrow> nat" where
  "regionsWithRings fc = length (filter (\<lambda>f. featureRings f \<noteq> []) (Features fc))"

text \<open>
  What one feature contributes to the scene: the element is the drawing loop's result
  for that feature, a path element, and one without path data if the feature has no
  ring.
\<close>

definition pathOf :: "'f Machine \<Rightarrow> ('f \<Rightarrow> string) \<Rightarrow> bounds \<Rightarrow> (int \<rightharpoonup> int) \<Rightarrow> Feature \<Rightarrow> svg_op \<Rightarrow> bool" where
  "pathOf mc fmt1 b scaleMap f e \<longleftrightarrow>
     renderFeature mc fmt1 b scaleMap f = Inr e
     \<and> (\<exists>d style. e = Path d style \<and> (featureRings f = [] \<longrightarrow> d = []))"

section \<open>Arithmetic without rounding\<close>

text \<open>
  A machine that is not the program's: its numbers are the reals, its operations are
  exact, and a division by zero has no result (\<open>None\<close>, which every further operation
  hands on and no comparison holds of). It says what the formulas of the projection
  compute before any rounding. For \<open>int(x)\<close> out of range it yields the least \<open>int\<close>.
\<close>

definition exact2 :: "(real \<Rightarrow> real \<Rightarrow> real) \<Rightarrow> real option \<Rightarrow> real option \<Rightarrow> real option" where
  "exact2 f a b = (case a of None \<Rightarrow> None | Some x \<Rightarrow> (case b of None \<Rightarrow> None | Some y \<Rightarrow> Some (f x y)))"

definition exactDiv :: "real option \<Rightarrow> real option \<Rightarrow> real option" where
  "exactDiv a b =
     (case a of None \<Rightarrow> None
      | Some x \<Rightarrow> (case b of None \<Rightarrow> None | Some y \<Rightarrow> if y = 0 then None else Some (x / y)))"

definition exactLess :: "real option \<Rightarrow> real option \<Rightarrow> bool" where
  "exactLess a b = (case a of None \<Rightarrow> False | Some x \<Rightarrow> (case b of None \<Rightarrow> False | Some y \<Rightarrow> x < y))"

definition exactMachine :: "real option Machine" where
  "exactMachine =
     \<lparr>lit = Some, fadd = exact2 (+), fsub = exact2 (-), fmul = exact2 (*), fdiv = exactDiv,
      fcos = map_option cos, fless = exactLess,
      intOutOfRange = (\<lambda>x. - 9223372036854775808)\<rparr>"

section \<open>Example inputs\<close>

text \<open>
  Collaborators for concrete runs: a decoder that rejects the text \<open>not json\<close> and
  decodes any other text to the given entries, a file system holding the geometry
  file, a GeoJSON decoder that yields the given feature collection, and a formatter
  that prints every number as \<open>0.0\<close>.
\<close>

definition exampleEnv :: "IntensityQuery list \<Rightarrow> FeatureCollection \<Rightarrow> 'f Env" where
  "exampleEnv intensities fc =
     \<lparr>jsonUnmarshal = (\<lambda>s. if s = ''not json'' then Inl ''invalid character'' else Inr intensities),
      readFile = (\<lambda>name. if name = ''japan.geojson'' then Inr ''geojson'' else Inl ''no such file''),
      unmarshalFeatureCollection = (\<lambda>data. Inr fc),
      sprintf1f = (\<lambda>x. ''0.0''),
      svgToPNG = (\<lambda>scene w h footer. Inr ''png'')\<rparr>"

definition exampleRequest :: "string \<Rightarrow> Request" where
  "exampleRequest scaleText = \<lparr>query = [''scale'' \<mapsto> scaleText, ''format'' \<mapsto> ''svg'']\<rparr>"

text \<open>A square region with identifier 1 spanning longitudes 130 to 140 and latitudes 30 to 40.\<close>

definition squareRegion :: Feature where
  "squareRegion =
     \<lparr>Properties = [''id'' \<mapsto> JNumber 1],
      Geometry = Some \<lparr>Type = ''Polygon'',
                       Polygon = [[[130, 30], [140, 30], [140, 40], [130, 40], [130, 30]]],
                       MultiPolygon = []\<rparr>\<rparr>"

text \<open>A triangular region with identifier 2, south-west of the square.\<close>

definition quietRegion :: Feature where
  "quietRegion =
     \<lparr>Properties = [''id'' \<mapsto> JNumber 2],
      Geometry = Some \<lparr>Type = ''MultiPolygon'', Polygon = [],
                       MultiPolygon = [[[[125, 25], [126, 25], [126, 26]]]]\<rparr>\<rparr>"

text \<open>A feature with identifier 1 and a geometry of a type the program does not handle.\<close>

definition pointFeature :: Feature where
  "pointFeature =
     \<lparr>Properties = [''id'' \<mapsto> JNumber 1],
      Geometry = Some \<lparr>Type = ''Point'', Polygon = [], MultiPolygon = []\<rparr>\<rparr>"

text \<open>A feature whose properties have no \<open>id\<close>, and one whose \<open>id\<close> is a string.\<close>

definition namelessFeature :: Feature where
  "namelessFeature =
     \<lparr>Properties = [''name'' \<mapsto> JString ''Tokyo''],
      Geometry = Some \<lparr>Type = ''Polygon'', Polygon = [[[139, 35], [140, 35], [140, 36]]],
                       MultiPolygon = []\<rparr>\<rparr>"

definition textIdFeature :: Feature where
  "textIdFeature =
     \<lparr>Properties = [''id'' \<mapsto> JString ''13''],
      Geometry = Some \<lparr>Type = ''Polygon'', Polygon = [[[139, 35], [140, 35], [140, 36]]],
                       MultiPolygon = []\<rparr>\<rparr>"

text \<open>The scene with the background and one path element without path data.\<close>

definition pointScene :: "svg_op list" where
  "pointScene = [Start 1280 720, Rect 0 0 1280 720 ''fill:#18181b'',
                 Path [] ''fill:#27272a;stroke:#a1a1aa;stroke-width:0.2;fill-opacity:0.8'', End]"

text \<open>
  The scene of the square (severity 3), the triangle (not in the table) and the point
  feature (severity 3), under the formatter of the example.
\<close>

definition mixedScene :: "svg_op list" where
  "mixedScene =
     [Start 1280 720, Rect 0 0 1280 720 ''fill:#18181b'',
      Path ''M0.0 0.0 L0.0 0.0 L0.0 0.0 L0.0 0.0 L0.0 0.0 Z ''
           ''fill:#facc15;stroke:#a1a1aa;stroke-width:0.2;fill-opacity:0.8'',
      Path ''M0.0 0.0 L0.0 0.0 L0.0 0.0 Z ''
           ''fill:#27272a;stroke:#a1a1aa;stroke-width:0.2;fill-opacity:0.8'',
      Path [] ''fill:#facc15;stroke:#a1a1aa;stroke-width:0.2;fill-opacity:0.8'',
      End]"

section \<open>The colour policy\<close>

text \<open>
  C1, as the code has it. For every integer severity \<open>s\<close> the colour policy returns a
  colour and never fails: for \<open>s\<close> in \<open>[0,7]\<close> the documented table colour, for every
  \<open>s\<close> above 7 (8 and 9 included) the colour \<open>#4a044e\<close>, and for negative \<open>s\<close> the
  severity-0 colour \<open>#27272a\<close>.
\<close>

theorem intensityToColor_total:
  "intensityToColor s =
     (if s < 0 then ''#27272a''
      else if s \<le> 7 then documentedColors ! nat s
      else ''#4a044e'')"
proof -
  consider "s < 0" | "s = 0" | "s = 1" | "s = 2" | "s = 3" | "s = 4" | "s = 5" | "s = 6"
    | "s = 7" | "7 < s"
    by linarith
  then show ?thesis
    by cases (simp_all add: intensityToColor_def documentedColors_def)
qed

theorem intensityToColor_total_witness:
  "intensityToColor (- 1) = ''#27272a'' \<and> intensityToColor 3 = ''#facc15''
   \<and> intensityToColor 7 = ''#500724'' \<and> intensityToColor 8 = ''#4a044e''"
  using intensityToColor_total [of "- 1"] intensityToColor_total [of 3]
    intensityToColor_total [of 7] intensityToColor_total [of 8]
  by (simp add: documentedColors_def)

text \<open>
  C1 as written fails at severity 9: the claim promises \<open>#b91c1c\<close> there, the code
  returns \<open>#4a044e\<close>, because the comparison \<open>scale > 6\<close> is tried first. For the
  same reason severity 10, outside every band the claim names, does not fall back to
  the severity-0 colour.
\<close>

theorem intensityToColor_nine_counterexample:
  "intensityToColor 9 = ''#4a044e'' \<and> intensityToColor 9 \<noteq> ''#b91c1c''
   \<and> intensityToColor 10 = ''#4a044e'' \<and> intensityToColor 10 \<noteq> ''#27272a''"
  by (simp add: intensityToColor_def)

section \<open>The intensity table\<close>

lemma not_validEntry: "\<not> validEntry q \<longleftrightarrow> Scale q < 0 \<or> 7 < Scale q"
  by (auto simp: validEntry_def)

lemma lastSeverity_Nil: "lastSeverity [] i = None"
  by (simp add: lastSeverity_def)

lemma lastSeverity_Cons:
  "lastSeverity (q # qs) i =
     (case lastSeverity qs i of Some v \<Rightarrow> Some v
      | None \<Rightarrow> if ID q = i then Some (Scale q) else None)"
  by (simp add: lastSeverity_def split: list.splits)

lemma buildScaleMap_valid:
  "\<forall>q\<in>set qs. validEntry q \<Longrightarrow>
   buildScaleMap qs m = Inr (\<lambda>i. case lastSeverity qs i of Some v \<Rightarrow> Some v | None \<Rightarrow> m i)"
proof (induction qs arbitrary: m)
  case Nil
  show ?case by (simp add: lastSeverity_Nil)
next
  case (Cons q qs)
  from Cons.prems have q: "\<not> (Scale q < 0 \<or> Scale q > 7)" and rest: "\<forall>q\<in>set qs. validEntry q"
    by (auto simp: validEntry_def)
  have "buildScaleMap (q # qs) m = buildScaleMap qs (m(ID q \<mapsto> Scale q))"
    using q by simp
  also have "\<dots> = Inr (\<lambda>i. case lastSeverity qs i of Some v \<Rightarrow> Some v
                               | None \<Rightarrow> (m(ID q \<mapsto> Scale q)) i)"
    by (rule Cons.IH [OF rest])
  also have "(\<lambda>i. case lastSeverity qs i of Some v \<Rightarrow> Some v | None \<Rightarrow> (m(ID q \<mapsto> Scale q)) i)
           = (\<lambda>i. case lastSeverity (q # qs) i of Some v \<Rightarrow> Some v | None \<Rightarrow> m i)"
    by (auto simp: lastSeverity_Cons fun_eq_iff split: option.splits)
  finally show ?case .
qed

text \<open>
  C8. For every sequence of valid intensity entries the loop succeeds, and the table
  it builds maps each region identifier to the severity of the last entry of the
  sequence that carries it (and holds no other key).
\<close>

theorem buildScaleMap_last_write_wins:
  "\<forall>q\<in>set qs. validEntry q \<Longrightarrow> buildScaleMap qs Map.empty = Inr (lastSeverity qs)"
  using buildScaleMap_valid [of qs Map.empty]
  by (simp add: fun_eq_iff split: option.splits)

theorem buildScaleMap_last_write_wins_witness:
  "buildScaleMap [\<lparr>ID = 1, Scale = 2\<rparr>, \<lparr>ID = 1, Scale = 5\<rparr>] Map.empty
     = Inr (lastSeverity [\<lparr>ID = 1, Scale = 2\<rparr>, \<lparr>ID = 1, Scale = 5\<rparr>])
   \<and> lastSeverity [\<lparr>ID = 1, Scale = 2\<rparr>, \<lparr>ID = 1, Scale = 5\<rparr>] 1 = Some 5"
  using buildScaleMap_last_write_wins [of "[\<lparr>ID = 1, Scale = 2\<rparr>, \<lparr>ID = 1, Scale = 5\<rparr>]"]
  by (simp add: validEntry_def lastSeverity_def)

lemma buildScaleMap_first_invalid:
  "\<forall>q\<in>set pre. validEntry q \<Longrightarrow> \<not> validEntry bad \<Longrightarrow>
   buildScaleMap (pre @ bad # post) m = Inl (invalidScaleError bad)"
proof (induction pre arbitrary: m)
  case Nil
  then show ?case by (auto simp: validEntry_def)
next
  case (Cons q pre)
  then show ?case by (auto simp: validEntry_def)
qed

lemma invalid_split:
  "\<exists>q\<in>set qs. \<not> validEntry q \<Longrightarrow>
   \<exists>pre bad post. qs = pre @ bad # post \<and> (\<forall>q\<in>set pre. validEntry q) \<and> \<not> validEntry bad"
  using split_list_first_prop [of qs "\<lambda>q. \<not> validEntry q"] by auto

lemma mapHandler_validation:
  assumes "queryGet r ''scale'' \<noteq> []"
    and "jsonUnmarshal env (queryGet r ''scale'') = Inr qs"
    and "buildScaleMap qs Map.empty = Inl resp"
  shows "mapHandler mc env r = resp"
  using assms by (simp add: mapHandler_def Let_def)

text \<open>
  C10. Validation is applied entry by entry, in input order, before anything is
  overwritten: when the decoded scale array consists of valid entries \<open>pre\<close>, then an
  entry \<open>bad\<close> out of range, then any entries \<open>post\<close> (a later valid entry for the same
  identifier among them), the request ends with status 400 and the message naming
  \<open>bad\<close>; neither \<open>pre\<close> nor \<open>post\<close> has any effect on the response.
\<close>

theorem mapHandler_rejects_before_overwrite:
  assumes "queryGet r ''scale'' \<noteq> []"
    and "jsonUnmarshal env (queryGet r ''scale'') = Inr (pre @ bad # post)"
    and "\<forall>q\<in>set pre. validEntry q"
    and "\<not> validEntry bad"
  shows "mapHandler mc env r = invalidScaleError bad"
  using assms(1,2) buildScaleMap_first_invalid [OF assms(3,4)]
  by (rule mapHandler_validation)

theorem mapHandler_rejects_before_overwrite_witness:
  "mapHandler exactMachine (exampleEnv [\<lparr>ID = 1, Scale = 9\<rparr>, \<lparr>ID = 1, Scale = 3\<rparr>] \<lparr>Features = []\<rparr>)
       (exampleRequest ''payload'')
     = HttpError 400 ''Invalid scale value for ID 1: 9''
   \<and> mapHandler exactMachine (exampleEnv [\<lparr>ID = 2, Scale = 4\<rparr>, \<lparr>ID = 1, Scale = 9\<rparr>, \<lparr>ID = 1, Scale = 3\<rparr>]
                   \<lparr>Features = []\<rparr>)
       (exampleRequest ''payload'')
     = HttpError 400 ''Invalid scale value for ID 1: 9''"
  using mapHandler_rejects_before_overwrite [where mc = exactMachine
          and r = "exampleRequest ''payload''"
          and env = "exampleEnv [\<lparr>ID = 1, Scale = 9\<rparr>, \<lparr>ID = 1, Scale = 3\<rparr>] \<lparr>Features = []\<rparr>"
          and pre = "[]" and bad = "\<lparr>ID = 1, Scale = 9\<rparr>" and post = "[\<lparr>ID = 1, Scale = 3\<rparr>]"]
    mapHandler_rejects_before_overwrite [where mc = exactMachine
          and r = "exampleRequest ''payload''"
          and env = "exampleEnv [\<lparr>ID = 2, Scale = 4\<rparr>, \<lparr>ID = 1, Scale = 9\<rparr>, \<lparr>ID = 1, Scale = 3\<rparr>] \<lparr>Features = []\<rparr>"
          and pre = "[\<lparr>ID = 2, Scale = 4\<rparr>]" and bad = "\<lparr>ID = 1, Scale = 9\<rparr>"
          and post = "[\<lparr>ID = 1, Scale = 3\<rparr>]"]
  by (simp add: exampleEnv_def exampleRequest_def queryGet_def validEntry_def invalidScaleError_def
        sprintf_d_def natDigits.simps digitChar_def)

text \<open>
  C7. A request without a \<open>scale\<close> parameter is answered with status 400 and the message
  \<open>scale parameter is required\<close>; a scale text the decoder rejects, with 400 and the
  decoder's error after \<open>Invalid scale data format: \<close>; a decoded array with an entry
  whose severity is outside \<open>[0,7]\<close>, with 400 and a message naming the identifier and
  the value of such an entry. An entry of severity exactly 7 is accepted into the
  table, one of severity exactly 8 is rejected. In each of these cases the response
  is the error alone: no image is written.
\<close>

theorem mapHandler_scale_errors:
  "(query r ''scale'' = None \<longrightarrow> mapHandler mc env r = HttpError 400 ''scale parameter is required'')
   \<and> (queryGet r ''scale'' \<noteq> [] \<and> jsonUnmarshal env (queryGet r ''scale'') = Inl err \<longrightarrow>
        mapHandler mc env r = HttpError 400 (''Invalid scale data format: '' @ err))
   \<and> (queryGet r ''scale'' \<noteq> [] \<and> jsonUnmarshal env (queryGet r ''scale'') = Inr qs
        \<and> (\<exists>q\<in>set qs. Scale q < 0 \<or> 7 < Scale q) \<longrightarrow>
        (\<exists>q\<in>set qs. (Scale q < 0 \<or> 7 < Scale q) \<and> mapHandler mc env r =
           HttpError 400 (''Invalid scale value for ID '' @ sprintf_d (ID q)
                            @ '': '' @ sprintf_d (Scale q))))
   \<and> buildScaleMap [\<lparr>ID = i, Scale = 7\<rparr>] Map.empty = Inr [i \<mapsto> 7]
   \<and> buildScaleMap [\<lparr>ID = i, Scale = 8\<rparr>] Map.empty =
        Inl (HttpError 400 (''Invalid scale value for ID '' @ sprintf_d i @ '': 8''))"
proof (intro conjI impI)
  assume "query r ''scale'' = None"
  then show "mapHandler mc env r = HttpError 400 ''scale parameter is required''"
    by (simp add: mapHandler_def queryGet_def)
next
  assume "queryGet r ''scale'' \<noteq> [] \<and> jsonUnmarshal env (queryGet r ''scale'') = Inl err"
  then show "mapHandler mc env r = HttpError 400 (''Invalid scale data format: '' @ err)"
    by (simp add: mapHandler_def Let_def)
next
  assume a: "queryGet r ''scale'' \<noteq> [] \<and> jsonUnmarshal env (queryGet r ''scale'') = Inr qs
        \<and> (\<exists>q\<in>set qs. Scale q < 0 \<or> 7 < Scale q)"
  then have "\<exists>q\<in>set qs. \<not> validEntry q"
    by (simp add: not_validEntry)
  then obtain pre bad post where qs: "qs = pre @ bad # post"
      and pre: "\<forall>q\<in>set pre. validEntry q" and bad: "\<not> validEntry bad"
    using invalid_split by blast
  have "buildScaleMap qs Map.empty = Inl (invalidScaleError bad)"
    unfolding qs using pre bad by (rule buildScaleMap_first_invalid)
  with a have "mapHandler mc env r = invalidScaleError bad"
    by (simp add: mapHandler_validation)
  moreover have "bad \<in> set qs" "Scale bad < 0 \<or> 7 < Scale bad"
    using qs bad by (simp_all add: not_validEntry)
  ultimately show "\<exists>q\<in>set qs. (Scale q < 0 \<or> 7 < Scale q) \<and> mapHandler mc env r =
           HttpError 400 (''Invalid scale value for ID '' @ sprintf_d (ID q)
                            @ '': '' @ sprintf_d (Scale q))"
    unfolding invalidScaleError_def by blast
next
  show "buildScaleMap [\<lparr>ID = i, Scale = 7\<rparr>] Map.empty = Inr [i \<mapsto> 7]"
    by simp
next
  show "buildScaleMap [\<lparr>ID = i, Scale = 8\<rparr>] Map.empty =
        Inl (HttpError 400 (''Invalid scale value for ID '' @ sprintf_d i @ '': 8''))"
    by (simp add: invalidScaleError_def sprintf_d_def natDigits.simps digitChar_def)
qed

theorem mapHandler_scale_errors_witness:
  "mapHandler exactMachine (exampleEnv [] \<lparr>Features = []\<rparr>) \<lparr>query = Map.empty\<rparr>
     = HttpError 400 ''scale parameter is required''
   \<and> mapHandler exactMachine (exampleEnv [] \<lparr>Features = []\<rparr>) (exampleRequest ''not json'')
     = HttpError 400 ''Invalid scale data format: invalid character''
   \<and> mapHandler exactMachine (exampleEnv [\<lparr>ID = 1, Scale = 9\<rparr>] \<lparr>Features = []\<rparr>) (exampleRequest ''payload'')
     = HttpError 400 ''Invalid scale value for ID 1: 9''"
  using mapHandler_scale_errors [where mc = exactMachine and r = "\<lparr>query = Map.empty\<rparr>"
          and env = "exampleEnv [] \<lparr>Features = []\<rparr>"]
    mapHandler_scale_errors [where mc = exactMachine and r = "exampleRequest ''not json''"
          and env = "exampleEnv [] \<lparr>Features = []\<rparr>" and err = "''invalid character''"]
    mapHandler_scale_errors [where mc = exactMachine and r = "exampleRequest ''payload''"
          and env = "exampleEnv [\<lparr>ID = 1, Scale = 9\<rparr>] \<lparr>Features = []\<rparr>"
          and qs = "[\<lparr>ID = 1, Scale = 9\<rparr>]"]
  by (simp add: exampleEnv_def exampleRequest_def queryGet_def
        sprintf_d_def natDigits.simps digitChar_def)

section \<open>The bounding box\<close>

lemma min_go_min: "min_go (<) a b = min b (a::real)"
  by (simp add: min_go_def min_def)

lemma max_go_max: "max_go (<) a b = max b (a::real)"
  by (simp add: max_go_def max_def)

lemma widenOver_Nil: "widenOver b [] = b"
  by (simp add: widenOver_def split: prod.splits)

lemma widenOver_append: "widenOver b (cs @ ds) = widenOver (widenOver b cs) ds"
  by (simp add: widenOver_def split: prod.splits)

lemma expandBounds_ok:
  "2 \<le> length coord \<Longrightarrow> expandBounds b coord = Inr (widenOver b [coord])"
  by (auto simp: expandBounds_def index_def widenOver_def min_go_min max_go_max lonOf_def latOf_def
        split: prod.splits)

lemma boundsRing_ok:
  "list_all (\<lambda>coord. 2 \<le> length coord) ring \<Longrightarrow> boundsRing ring b = Inr (widenOver b ring)"
proof (induction ring arbitrary: b)
  case Nil
  show ?case by (simp add: widenOver_Nil)
next
  case (Cons coord ring)
  then have "boundsRing (coord # ring) b = Inr (widenOver (widenOver b [coord]) ring)"
    by (simp add: expandBounds_ok)
  then show ?case
    using widenOver_append [of b "[coord]" ring] by simp
qed

lemma boundsPolygon_ok:
  "list_all (\<lambda>coord. 2 \<le> length coord) (concat polygon) \<Longrightarrow>
   boundsPolygon polygon b = Inr (widenOver b (concat polygon))"
proof (induction polygon arbitrary: b)
  case Nil
  show ?case by (simp add: widenOver_Nil)
next
  case (Cons ring polygon)
  then show ?case
    by (simp add: boundsRing_ok widenOver_append)
qed

lemma boundsMultiPolygon_ok:
  "list_all (\<lambda>coord. 2 \<le> length coord) (concat (concat multi)) \<Longrightarrow>
   boundsMultiPolygon multi b = Inr (widenOver b (concat (concat multi)))"
proof (induction multi arbitrary: b)
  case Nil
  show ?case by (simp add: widenOver_Nil)
next
  case (Cons polygon multi)
  then show ?case
    by (simp add: boundsPolygon_ok widenOver_append)
qed

lemma boundsFeature_inactive:
  "hasNumericId f \<Longrightarrow> \<not> active oor m f \<Longrightarrow> boundsFeature oor m f b = Inr b"
  by (auto simp: boundsFeature_def hasNumericId_def active_def assertFloat64_def
        split: option.splits jvalue.splits)

lemma boundsFeature_active:
  "active oor m f \<Longrightarrow> Geometry f \<noteq> None \<Longrightarrow>
   list_all (\<lambda>coord. 2 \<le> length coord) (concat (featureRings f)) \<Longrightarrow>
   boundsFeature oor m f b = Inr (widenOver b (concat (featureRings f)))"
  by (auto simp: boundsFeature_def active_def assertFloat64_def featureRings_def
        boundsPolygon_ok boundsMultiPolygon_ok widenOver_Nil
        split: option.splits jvalue.splits)

lemma boundsFeatures_ok:
  "list_all hasNumericId fs \<Longrightarrow>
   list_all (\<lambda>f. Geometry f \<noteq> None) (filter (active oor m) fs) \<Longrightarrow>
   list_all (\<lambda>coord. 2 \<le> length coord) (concat (concat (map featureRings (filter (active oor m) fs)))) \<Longrightarrow>
   boundsFeatures oor m fs b = Inr (widenOver b (concat (concat (map featureRings (filter (active oor m) fs)))))"
proof (induction fs arbitrary: b)
  case Nil
  show ?case by (simp add: widenOver_Nil)
next
  case (Cons f fs)
  show ?case
  proof (cases "active oor m f")
    case True
    with Cons.prems have "boundsFeature oor m f b = Inr (widenOver b (concat (featureRings f)))"
      by (simp add: boundsFeature_active)
    with True Cons.prems Cons.IH [of "widenOver b (concat (featureRings f))"] show ?thesis
      by (simp add: widenOver_append)
  next
    case False
    with Cons.prems have "boundsFeature oor m f b = Inr b"
      by (simp add: boundsFeature_inactive)
    with False Cons.prems Cons.IH [of b] show ?thesis
      by simp
  qed
qed

text \<open>On a well-formed collection the loop returns, with the start box widened over the active positions.\<close>

lemma calculateBounds_ok:
  "wellFormed oor fc m \<Longrightarrow>
   calculateBounds oor fc m = Inr (widenOver (180, 90, - 180, - 90) (activeCoords oor fc m))"
  by (simp add: wellFormed_def calculateBounds_def activeCoords_def boundsFeatures_ok)

lemma wellFormed_active_only:
  "wellFormed oor fc m \<Longrightarrow> wellFormed oor \<lparr>Features = filter (active oor m) (Features fc)\<rparr> m"
  by (simp add: wellFormed_def activeCoords_def list_all_iff)

lemma activeCoords_active_only:
  "activeCoords oor \<lparr>Features = filter (active oor m) (Features fc)\<rparr> m = activeCoords oor fc m"
  by (simp add: activeCoords_def)

lemma fold_min_Min:
  fixes a :: real
  assumes "xs \<noteq> []"
  shows "fold min xs a = min a (Min (set xs))"
proof -
  have "fold min xs a = Min (set (a # xs))"
    by (rule Min.set_eq_fold [symmetric])
  also have "\<dots> = min a (Min (set xs))"
    using assms by simp
  finally show ?thesis .
qed

lemma fold_max_Max:
  fixes a :: real
  assumes "xs \<noteq> []"
  shows "fold max xs a = max a (Max (set xs))"
proof -
  have "fold max xs a = Max (set (a # xs))"
    by (rule Max.set_eq_fold [symmetric])
  also have "\<dots> = max a (Max (set xs))"
    using assms by simp
  finally show ?thesis .
qed

text \<open>
  With a position in an active region, the box is the minimum and maximum over the
  start values and the active positions.
\<close>

lemma calculateBounds_from_start:
  assumes wf: "wellFormed oor fc m" and ne: "activeCoords oor fc m \<noteq> []"
  shows "calculateBounds oor fc m =
           Inr (min 180 (Min (lonOf ` set (activeCoords oor fc m))),
                min 90 (Min (latOf ` set (activeCoords oor fc m))),
                max (- 180) (Max (lonOf ` set (activeCoords oor fc m))),
                max (- 90) (Max (latOf ` set (activeCoords oor fc m))))"
  using ne by (simp add: calculateBounds_ok [OF wf] widenOver_def fold_min_Min fold_max_Max)

text \<open>
  C6. In adaptive mode, for every well-formed feature collection of longitude and
  latitude positions and every intensity table with a position in a region of
  non-zero severity, the computed box is exactly the componentwise minimum and
  maximum over every position of every ring of every region whose severity in the
  table is not 0. Regions of severity 0, explicit or absent, contribute nothing:
  dropping them from the collection leaves the box unchanged.
\<close>

theorem calculateBounds_active_extent:
  assumes wf: "wellFormed oor fc m" and ne: "activeCoords oor fc m \<noteq> []"
    and geo: "list_all geographic (activeCoords oor fc m)"
  shows "calculateBounds oor fc m =
           Inr (Min (lonOf ` set (activeCoords oor fc m)), Min (latOf ` set (activeCoords oor fc m)),
                Max (lonOf ` set (activeCoords oor fc m)), Max (latOf ` set (activeCoords oor fc m)))
         \<and> calculateBounds oor \<lparr>Features = filter (active oor m) (Features fc)\<rparr> m
             = calculateBounds oor fc m"
proof
  let ?cs = "activeCoords oor fc m"
  obtain c where c: "c \<in> set ?cs"
    using ne by (cases ?cs) auto
  have each: "\<And>coord. coord \<in> set ?cs \<Longrightarrow> geographic coord"
    using geo by (simp add: list_all_iff)
  have fin: "finite (lonOf ` set ?cs)" "finite (latOf ` set ?cs)"
    by simp_all
  have "Min (lonOf ` set ?cs) \<le> lonOf c" "Min (latOf ` set ?cs) \<le> latOf c"
    and "lonOf c \<le> Max (lonOf ` set ?cs)" "latOf c \<le> Max (latOf ` set ?cs)"
    using c fin by simp_all
  moreover have "lonOf c \<le> 180" "latOf c \<le> 90" "- 180 \<le> lonOf c" "- 90 \<le> latOf c"
    using each [OF c] by (simp_all add: geographic_def)
  ultimately have "Min (lonOf ` set ?cs) \<le> 180" "Min (latOf ` set ?cs) \<le> 90"
    and "- 180 \<le> Max (lonOf ` set ?cs)" "- 90 \<le> Max (latOf ` set ?cs)"
    by linarith+
  then show "calculateBounds oor fc m =
           Inr (Min (lonOf ` set ?cs), Min (latOf ` set ?cs),
                Max (lonOf ` set ?cs), Max (latOf ` set ?cs))"
    using calculateBounds_from_start [OF wf ne] by (simp add: min_def max_def)
next
  show "calculateBounds oor \<lparr>Features = filter (active oor m) (Features fc)\<rparr> m
          = calculateBounds oor fc m"
    using calculateBounds_ok [OF wf] calculateBounds_ok [OF wellFormed_active_only [OF wf]]
    by (simp add: activeCoords_active_only)
qed

theorem calculateBounds_active_extent_witness:
  "calculateBounds (intOutOfRange exactMachine) \<lparr>Features = [quietRegion, squareRegion]\<rparr>
       [1 \<mapsto> 3, 2 \<mapsto> 0]
     = Inr (130, 30, 140, 40)
   \<and> calculateBounds (intOutOfRange exactMachine) \<lparr>Features = [squareRegion]\<rparr> [1 \<mapsto> 3, 2 \<mapsto> 0]
     = Inr (130, 30, 140, 40)"
  using calculateBounds_active_extent [of "intOutOfRange exactMachine"
          "\<lparr>Features = [quietRegion, squareRegion]\<rparr>" "[1 \<mapsto> 3, 2 \<mapsto> 0]"]
  by (simp add: wellFormed_def activeCoords_def active_def hasNumericId_def lookup0_def
        float64ToInt_def featureRings_def squareRegion_def quietRegion_def lonOf_def latOf_def
        geographic_def)

text \<open>When no position is active the box keeps its start values.\<close>

lemma calculateBounds_sentinel:
  "wellFormed oor fc m \<Longrightarrow> activeCoords oor fc m = [] \<Longrightarrow>
   calculateBounds oor fc m = Inr (180, 90, - 180, - 90)"
  by (simp add: calculateBounds_ok widenOver_Nil)

text \<open>
  C2 at a concrete input. With an empty intensity table no region is active, and the
  box returned for a collection holding the square region is the start box, with
  \<open>minLon = 180 > maxLon = -180\<close> and \<open>minLat = 90 > maxLat = -90\<close>: no default box is
  substituted. The projection derived from it turns the map around: already before
  any rounding, the corner (130, 30) lands right of and above the corner (140, 40).
\<close>

theorem calculateBounds_no_active_region:
  "calculateBounds oor \<lparr>Features = [squareRegion]\<rparr> Map.empty = Inr (180, 90, - 180, - 90)
   \<and> funcToScreen exactMachine (180, 90, - 180, - 90) 130 30 = (Some 224, Some 456)
   \<and> funcToScreen exactMachine (180, 90, - 180, - 90) 140 40 = (Some 192, Some 488)"
  by (simp add: calculateBounds_def boundsFeature_def assertFloat64_def float64ToInt_def
        lookup0_def squareRegion_def funcToScreen_def CANVAS_WIDTH_def CANVAS_HEIGHT_def
        min_go_def Let_def exactMachine_def exact2_def exactDiv_def exactLess_def)

section \<open>Features without a valid identifier\<close>

lemma boundsFeature_bad_id:
  "\<not> hasNumericId f \<Longrightarrow> boundsFeature oor m f b = Inl InterfaceConversion"
  by (auto simp: boundsFeature_def hasNumericId_def assertFloat64_def split: option.splits jvalue.splits)

lemma boundsFeatures_bad_id:
  "\<exists>f\<in>set fs. \<not> hasNumericId f \<Longrightarrow> \<exists>p. boundsFeatures oor m fs b = Inl p"
proof (induction fs arbitrary: b)
  case Nil
  then show ?case by simp
next
  case (Cons f fs)
  show ?case
  proof (cases "boundsFeature oor m f b")
    case (Inl p)
    then show ?thesis by simp
  next
    case (Inr b')
    then have "hasNumericId f"
      using boundsFeature_bad_id [of f oor m b] by auto
    with Cons.prems have "\<exists>f\<in>set fs. \<not> hasNumericId f" by auto
    then show ?thesis using Inr Cons.IH [of b'] by simp
  qed
qed

text \<open>A feature without a numeric identifier makes the bounding-box loop panic.\<close>

lemma calculateBounds_bad_id:
  "\<exists>f\<in>set (Features fc). \<not> hasNumericId f \<Longrightarrow> \<exists>p. calculateBounds oor fc m = Inl p"
  unfolding calculateBounds_def by (rule boundsFeatures_bad_id)

lemma renderFeature_schema_error:
  "renderFeature mc fmt1 b m f = Inl (HttpError 500 msg) \<Longrightarrow> \<not> hasNumericId f"
  by (auto simp: renderFeature_def hasNumericId_def Let_def split: option.splits jvalue.splits sum.splits)

lemma renderFeatures_schema_error:
  "renderFeatures mc fmt1 b m fs canvas = Inl (HttpError 500 msg) \<Longrightarrow> \<exists>f\<in>set fs. \<not> hasNumericId f"
proof (induction fs arbitrary: canvas)
  case Nil
  then show ?case by simp
next
  case (Cons f fs)
  then show ?case
    by (auto split: sum.splits dest: renderFeature_schema_error)
qed

lemma buildScaleMap_error:
  "buildScaleMap qs m = Inl resp \<Longrightarrow> \<exists>q. resp = invalidScaleError q"
  by (induction qs arbitrary: m) (auto split: if_splits)

lemma renderFeature_error:
  "renderFeature mc fmt1 b m f = Inl resp \<Longrightarrow>
   (\<exists>p. resp = Panic p) \<or> resp = HttpError 500 ''Invalid ID format in GeoJSON''"
  by (auto simp: renderFeature_def Let_def split: option.splits jvalue.splits sum.splits)

lemma renderFeatures_error:
  "renderFeatures mc fmt1 b m fs canvas = Inl resp \<Longrightarrow>
   (\<exists>p. resp = Panic p) \<or> resp = HttpError 500 ''Invalid ID format in GeoJSON''"
proof (induction fs arbitrary: canvas)
  case Nil
  then show ?case by simp
next
  case (Cons f fs)
  then show ?case
    by (auto split: sum.splits dest: renderFeature_error)
qed

text \<open>
  The drawing loop's answer \<open>Invalid ID format in GeoJSON\<close> is never the response of the
  handler: the bounding-box loop has asserted every identifier before.
\<close>

lemma mapHandler_no_schema_error:
  "mapHandler mc env r \<noteq> HttpError 500 ''Invalid ID format in GeoJSON''"
proof
  assume a: "mapHandler mc env r = HttpError 500 ''Invalid ID format in GeoJSON''"
  then obtain qs m fc b where
      "buildScaleMap qs Map.empty = Inr m"
      and cb: "calculateBounds (intOutOfRange mc) fc m = Inr b"
      and rf: "renderFeatures mc (sprintf1f env) b m (Features fc)
                 [Start 1280 720, Rect 0 0 1280 720 ''fill:#18181b'']
               = Inl (HttpError 500 ''Invalid ID format in GeoJSON'')"
    by (auto simp: mapHandler_def Let_def invalidScaleError_def
          split: if_splits sum.splits dest!: buildScaleMap_error)
  from rf have "\<exists>f\<in>set (Features fc). \<not> hasNumericId f"
    by (rule renderFeatures_schema_error)
  then have "\<exists>p. calculateBounds (intOutOfRange mc) fc m = Inl p"
    by (rule calculateBounds_bad_id)
  with cb show False by simp
qed

text \<open>
  C3 at concrete inputs. A valid request against a collection whose second feature has
  no \<open>id\<close> property, or has a string as \<open>id\<close>, does not end with status 500: the
  handler panics in the unchecked assertion of the bounding-box loop.
\<close>

theorem mapHandler_missing_id_panics:
  "mapHandler mc (exampleEnv [] \<lparr>Features = [squareRegion, namelessFeature]\<rparr>) (exampleRequest ''[]'')
     = Panic InterfaceConversion
   \<and> mapHandler mc (exampleEnv [] \<lparr>Features = [squareRegion, textIdFeature]\<rparr>) (exampleRequest ''[]'')
     = Panic InterfaceConversion"
  by (simp add: mapHandler_def exampleEnv_def exampleRequest_def queryGet_def
        calculateBounds_def boundsFeature_def assertFloat64_def float64ToInt_def lookup0_def
        squareRegion_def namelessFeature_def textIdFeature_def)

section \<open>The vector scene\<close>

lemma renderFeature_Path:
  "renderFeature mc fmt1 b m f = Inr e \<Longrightarrow> \<exists>d style. e = Path d style"
  by (auto simp: renderFeature_def Let_def split: option.splits jvalue.splits sum.splits)

lemma renderFeatures_scene:
  "renderFeatures mc fmt1 b m fs canvas = Inr canvas' \<Longrightarrow>
   \<exists>els. canvas' = canvas @ els \<and> map (renderFeature mc fmt1 b m) fs = map Inr els"
proof (induction fs arbitrary: canvas)
  case Nil
  then show ?case by simp
next
  case (Cons f fs)
  then obtain e where e: "renderFeature mc fmt1 b m f = Inr e"
      and rest: "renderFeatures mc fmt1 b m fs (canvas @ [e]) = Inr canvas'"
    by (auto split: sum.splits)
  from Cons.IH [OF rest] obtain els where
    "canvas' = (canvas @ [e]) @ els" "map (renderFeature mc fmt1 b m) fs = map Inr els"
    by blast
  with e have "canvas' = canvas @ (e # els)
      \<and> map (renderFeature mc fmt1 b m) (f # fs) = map Inr (e # els)"
    by simp
  then show ?case by blast
qed

text \<open>
  A scene that is written consists of the canvas start, the background, the elements
  of the features in the order of the collection, and the canvas end.
\<close>

lemma mapHandler_scene:
  assumes "mapHandler mc env r = Written ctype (Markup scene)"
    and "readFile env ''japan.geojson'' = Inr data"
    and "unmarshalFeatureCollection env data = Inr fc"
  shows "\<exists>qs m b els. jsonUnmarshal env (queryGet r ''scale'') = Inr qs
           \<and> buildScaleMap qs Map.empty = Inr m
           \<and> calculateBounds (intOutOfRange mc) fc m = Inr b
           \<and> scene = Start 1280 720 # Rect 0 0 1280 720 ''fill:#18181b'' # els @ [End]
           \<and> map (renderFeature mc (sprintf1f env) b m) (Features fc) = map Inr els"
proof -
  from assms obtain qs m b canvas where qs: "jsonUnmarshal env (queryGet r ''scale'') = Inr qs"
      and m: "buildScaleMap qs Map.empty = Inr m"
      and cb: "calculateBounds (intOutOfRange mc) fc m = Inr b"
      and rf: "renderFeatures mc (sprintf1f env) b m (Features fc)
                 [Start 1280 720, Rect 0 0 1280 720 ''fill:#18181b''] = Inr canvas"
      and scene: "scene = canvas @ [End]"
    by (auto simp: mapHandler_def Let_def invalidScaleError_def
          split: if_splits sum.splits dest!: buildScaleMap_error renderFeatures_error)
  from renderFeatures_scene [OF rf] obtain els where
    canvas: "canvas = [Start 1280 720, Rect 0 0 1280 720 ''fill:#18181b''] @ els"
    and els: "map (renderFeature mc (sprintf1f env) b m) (Features fc) = map Inr els"
    by blast
  from scene canvas have "scene = Start 1280 720 # Rect 0 0 1280 720 ''fill:#18181b'' # els @ [End]"
    by simp
  with qs m cb els show ?thesis by blast
qed

text \<open>The path loops return when every position has two numbers, with one path per ring.\<close>

lemma ringPath_ok:
  "list_all (\<lambda>coord. 2 \<le> length coord) ring \<Longrightarrow> \<exists>s. ringPath mc fmt1 b ring i pathStr = Inr s"
proof (induction ring arbitrary: i pathStr)
  case Nil
  show ?case by simp
next
  case (Cons coord ring)
  then show ?case
    by (auto simp: index_def split: prod.splits)
qed

lemma polygonPaths_ok:
  "list_all (\<lambda>coord. 2 \<le> length coord) (concat polygon) \<Longrightarrow>
   \<exists>ps. polygonPaths mc fmt1 b polygon paths = Inr ps \<and> length ps = length paths + length polygon"
proof (induction polygon arbitrary: paths)
  case Nil
  show ?case by simp
next
  case (Cons ring polygon)
  from Cons.prems have ring: "list_all (\<lambda>coord. 2 \<le> length coord) ring"
    and rest: "list_all (\<lambda>coord. 2 \<le> length coord) (concat polygon)"
    by simp_all
  from ringPath_ok [OF ring] obtain s where s: "ringPath mc fmt1 b ring 0 ''M'' = Inr s"
    by blast
  from Cons.IH [OF rest, of "paths @ [s @ '' Z'']"] s show ?case
    by auto
qed

lemma multiPolygonPaths_ok:
  "list_all (\<lambda>coord. 2 \<le> length coord) (concat (concat multi)) \<Longrightarrow>
   \<exists>ps. multiPolygonPaths mc fmt1 b multi paths = Inr ps
        \<and> length ps = length paths + length (concat multi)"
proof (induction multi arbitrary: paths)
  case Nil
  show ?case by simp
next
  case (Cons polygon multi)
  from Cons.prems have poly: "list_all (\<lambda>coord. 2 \<le> length coord) (concat polygon)"
    and rest: "list_all (\<lambda>coord. 2 \<le> length coord) (concat (concat multi))"
    by simp_all
  from polygonPaths_ok [OF poly] obtain ps where
    ps: "polygonPaths mc fmt1 b polygon paths = Inr ps" "length ps = length paths + length polygon"
    by blast
  from Cons.IH [OF rest, of ps] ps show ?case
    by auto
qed

lemma featurePaths_ok:
  assumes "Geometry f = Some g"
    and "list_all (\<lambda>coord. 2 \<le> length coord) (concat (featureRings f))"
  shows "\<exists>ps. featurePaths mc fmt1 b g = Inr ps \<and> length ps = length (featureRings f)"
  using assms polygonPaths_ok [of "Polygon g" mc fmt1 b "[]"]
    multiPolygonPaths_ok [of "MultiPolygon g" mc fmt1 b "[]"]
  by (auto simp: featurePaths_def featureRings_def)

lemma finalPath_Nil: "finalPath [] = []"
  by (simp add: finalPath_def)

text \<open>Every feature of a drawable collection contributes its path element.\<close>

lemma renderFeature_ok:
  assumes id: "hasNumericId f" and geometry: "Geometry f \<noteq> None"
    and positions: "list_all (\<lambda>coord. 2 \<le> length coord) (concat (featureRings f))"
  shows "\<exists>e. pathOf mc fmt1 b m f e"
proof -
  from id obtain v where v: "Properties f ''id'' = Some (JNumber v)"
    by (auto simp: hasNumericId_def split: option.splits jvalue.splits)
  from geometry obtain g where g: "Geometry f = Some g"
    by auto
  from featurePaths_ok [OF g positions] obtain ps where
    ps: "featurePaths mc fmt1 b g = Inr ps" and len: "length ps = length (featureRings f)"
    by blast
  have "featureRings f = [] \<longrightarrow> finalPath ps = []"
    using len by (auto simp: finalPath_Nil)
  then show ?thesis
    using v g ps by (auto simp: pathOf_def renderFeature_def Let_def)
qed

lemma renderFeatures_ok:
  "list_all (\<lambda>f. hasNumericId f \<and> Geometry f \<noteq> None
       \<and> list_all (\<lambda>coord. 2 \<le> length coord) (concat (featureRings f))) fs \<Longrightarrow>
   \<exists>els. renderFeatures mc fmt1 b m fs canvas = Inr (canvas @ els)
        \<and> list_all2 (pathOf mc fmt1 b m) fs els"
proof (induction fs arbitrary: canvas)
  case Nil
  show ?case by simp
next
  case (Cons f fs)
  from Cons.prems obtain e where e: "pathOf mc fmt1 b m f e"
    using renderFeature_ok [of f mc fmt1 b m] by auto
  from Cons.prems Cons.IH [of "canvas @ [e]"] obtain els where
    els: "renderFeatures mc fmt1 b m fs (canvas @ [e]) = Inr ((canvas @ [e]) @ els)"
      "list_all2 (pathOf mc fmt1 b m) fs els"
    by auto
  from e have "renderFeature mc fmt1 b m f = Inr e"
    by (simp add: pathOf_def)
  with els e have "renderFeatures mc fmt1 b m (f # fs) canvas = Inr (canvas @ (e # els))
      \<and> list_all2 (pathOf mc fmt1 b m) (f # fs) (e # els)"
    by simp
  then show ?case by blast
qed

lemma pathCount_paths:
  "list_all2 (pathOf mc fmt1 b m) fs els \<Longrightarrow> pathCount els = length fs"
  by (induction fs els rule: list_all2_induct) (auto simp: pathCount_def pathOf_def)

lemma pathCount_scene:
  "pathCount (Start w h # Rect x y w' h' style # els @ [End]) = pathCount els"
  by (simp add: pathCount_def)

lemma drawable_wellFormed: "drawable fc \<Longrightarrow> wellFormed oor fc m"
  by (auto simp: drawable_def wellFormed_def activeCoords_def list_all_iff)

lemma drawable_features:
  "drawable fc \<Longrightarrow>
   list_all (\<lambda>f. hasNumericId f \<and> Geometry f \<noteq> None
       \<and> list_all (\<lambda>coord. 2 \<le> length coord) (concat (featureRings f))) (Features fc)"
  by (auto simp: drawable_def list_all_iff)

lemma buildScaleMap_table:
  "\<forall>q\<in>set qs. validEntry q \<Longrightarrow> buildScaleMap qs Map.empty = Inr (lastSeverity qs)"
  using buildScaleMap_valid [of qs Map.empty]
  by (simp add: fun_eq_iff split: option.splits)

text \<open>
  C4, as the code has it. For every valid request with \<open>format=svg\<close> (the scale text
  decodes to valid entries, the geometry file is read and gives every feature a
  numeric identifier, a geometry and positions of two numbers), the handler writes
  vector markup that holds, between the background and the end, exactly one path
  element per feature of the collection, in the order of the collection, whatever the
  number of rings of the feature: the element of each feature is the drawing loop's
  result for it, and a feature without rings, such as one of an unsupported geometry
  type, contributes a path element without path data.
\<close>

theorem mapHandler_one_path_per_feature:
  assumes scale: "queryGet r ''scale'' \<noteq> []"
    and decode: "jsonUnmarshal env (queryGet r ''scale'') = Inr qs"
    and valid: "\<forall>q\<in>set qs. validEntry q"
    and loaded: "readFile env ''japan.geojson'' = Inr data"
    and parse: "unmarshalFeatureCollection env data = Inr fc"
    and drawable: "drawable fc"
    and svg: "queryGet r ''format'' = ''svg''"
  shows "\<exists>b els. calculateBounds (intOutOfRange mc) fc (lastSeverity qs) = Inr b
           \<and> mapHandler mc env r = Written ''image/svg+xml''
                (Markup (Start 1280 720 # Rect 0 0 1280 720 ''fill:#18181b'' # els @ [End]))
           \<and> list_all2 (pathOf mc (sprintf1f env) b (lastSeverity qs)) (Features fc) els
           \<and> pathCount (Start 1280 720 # Rect 0 0 1280 720 ''fill:#18181b'' # els @ [End])
               = length (Features fc)"
proof -
  have table: "buildScaleMap qs Map.empty = Inr (lastSeverity qs)"
    using valid by (rule buildScaleMap_table)
  obtain b where b: "calculateBounds (intOutOfRange mc) fc (lastSeverity qs) = Inr b"
    using calculateBounds_ok [OF drawable_wellFormed [OF drawable]] by blast
  from renderFeatures_ok [OF drawable_features [OF drawable]] obtain els where
    loop: "renderFeatures mc (sprintf1f env) b (lastSeverity qs) (Features fc)
             [Start 1280 720, Rect 0 0 1280 720 ''fill:#18181b'']
           = Inr ([Start 1280 720, Rect 0 0 1280 720 ''fill:#18181b''] @ els)"
    and els: "list_all2 (pathOf mc (sprintf1f env) b (lastSeverity qs)) (Features fc) els"
    by blast
  have "mapHandler mc env r = Written ''image/svg+xml''
          (Markup (Start 1280 720 # Rect 0 0 1280 720 ''fill:#18181b'' # els @ [End]))"
    using scale decode table loaded parse b loop svg by (simp add: mapHandler_def Let_def)
  moreover have "pathCount (Start 1280 720 # Rect 0 0 1280 720 ''fill:#18181b'' # els @ [End])
      = length (Features fc)"
    using pathCount_paths [OF els] by (simp only: pathCount_scene)
  ultimately show ?thesis
    using b els by blast
qed

lemma mixedFeatures_run:
  "mapHandler exactMachine
       (exampleEnv [\<lparr>ID = 1, Scale = 3\<rparr>] \<lparr>Features = [squareRegion, quietRegion, pointFeature]\<rparr>)
       (exampleRequest ''payload'')
     = Written ''image/svg+xml'' (Markup mixedScene)"
  by (simp add: mapHandler_def exampleEnv_def exampleRequest_def queryGet_def
        calculateBounds_def boundsFeature_def assertFloat64_def float64ToInt_def lookup0_def
        expandBounds_def index_def min_go_def max_go_def
        squareRegion_def quietRegion_def pointFeature_def renderFeature_def featurePaths_def
        funcToScreen_def finalPath_def pathStyle_def intensityToColor_def mixedScene_def Let_def)

theorem mapHandler_one_path_per_feature_witness:
  "mapHandler exactMachine
       (exampleEnv [\<lparr>ID = 1, Scale = 3\<rparr>] \<lparr>Features = [squareRegion, quietRegion, pointFeature]\<rparr>)
       (exampleRequest ''payload'')
     = Written ''image/svg+xml'' (Markup mixedScene)
   \<and> pathCount mixedScene = 3"
proof -
  let ?fc = "\<lparr>Features = [squareRegion, quietRegion, pointFeature]\<rparr>"
  let ?env = "exampleEnv [\<lparr>ID = 1, Scale = 3\<rparr>] ?fc :: real option Env"
  let ?r = "exampleRequest ''payload''"
  have scale: "queryGet ?r ''scale'' \<noteq> []"
    and decode: "jsonUnmarshal ?env (queryGet ?r ''scale'') = Inr [\<lparr>ID = 1, Scale = 3\<rparr>]"
    and valid: "\<forall>q\<in>set [\<lparr>ID = 1, Scale = 3\<rparr>]. validEntry q"
    and loaded: "readFile ?env ''japan.geojson'' = Inr ''geojson''"
    and parse: "unmarshalFeatureCollection ?env ''geojson'' = Inr ?fc"
    and svg: "queryGet ?r ''format'' = ''svg''"
    by (simp_all add: exampleEnv_def exampleRequest_def queryGet_def validEntry_def)
  have drawable: "drawable ?fc"
    by (simp add: drawable_def hasNumericId_def featureRings_def
          squareRegion_def quietRegion_def pointFeature_def)
  from mapHandler_one_path_per_feature [OF scale decode valid loaded parse drawable svg, of exactMachine]
  obtain els where
    "mapHandler exactMachine ?env ?r = Written ''image/svg+xml''
       (Markup (Start 1280 720 # Rect 0 0 1280 720 ''fill:#18181b'' # els @ [End]))"
    and "pathCount (Start 1280 720 # Rect 0 0 1280 720 ''fill:#18181b'' # els @ [End])
           = length (Features ?fc)"
    by blast
  with mixedFeatures_run show ?thesis by simp
qed

lemma pointFeature_run:
  "mapHandler exactMachine (exampleEnv [] \<lparr>Features = [pointFeature]\<rparr>) (exampleRequest ''[]'')
     = Written ''image/svg+xml'' (Markup pointScene)"
  by (simp add: mapHandler_def exampleEnv_def exampleRequest_def queryGet_def
        calculateBounds_def boundsFeature_def assertFloat64_def float64ToInt_def lookup0_def
        pointFeature_def renderFeature_def featurePaths_def finalPath_def pathStyle_def
        intensityToColor_def pointScene_def Let_def)

text \<open>
  C4 as written fails for a feature of type \<open>Point\<close>: it has no ring, so the collection
  has no region with a non-zero ring count, yet the scene written for \<open>format=svg\<close>
  holds one path element (with empty path data).
\<close>

theorem mapHandler_path_for_ringless_counterexample:
  "mapHandler exactMachine (exampleEnv [] \<lparr>Features = [pointFeature]\<rparr>) (exampleRequest ''[]'')
     = Written ''image/svg+xml'' (Markup pointScene)
   \<and> pathCount pointScene = 1
   \<and> regionsWithRings \<lparr>Features = [pointFeature]\<rparr> = 0"
  by (simp add: pointFeature_run)
     (simp add: pointScene_def pathCount_def regionsWithRings_def featureRings_def pointFeature_def)

text \<open>
  C9. Two runs of the handler that ask for \<open>format=svg\<close> with the same scale text,
  against the same scale decoder, file system, GeoJSON decoder and float formatter,
  give the same response, whatever else differs between them (the footer, other query
  parameters, the rasteriser and its font). When that response is a scene, it is the
  canvas start, the background, then one element per feature in the order of the
  feature collection, each the rendering of that feature under the table built from
  the decoded scale entries and the box computed from it, then the canvas end.
\<close>

theorem mapHandler_svg_deterministic:
  assumes "jsonUnmarshal env1 = jsonUnmarshal env2"
    and "readFile env1 = readFile env2"
    and "unmarshalFeatureCollection env1 = unmarshalFeatureCollection env2"
    and "sprintf1f env1 = sprintf1f env2"
    and "queryGet r1 ''scale'' = queryGet r2 ''scale''"
    and "queryGet r1 ''format'' = ''svg''"
    and "queryGet r2 ''format'' = ''svg''"
  shows "mapHandler mc env1 r1 = mapHandler mc env2 r2
         \<and> (\<forall>ctype scene data fc.
               mapHandler mc env1 r1 = Written ctype (Markup scene)
               \<and> readFile env1 ''japan.geojson'' = Inr data
               \<and> unmarshalFeatureCollection env1 data = Inr fc \<longrightarrow>
               (\<exists>qs m b els. jsonUnmarshal env1 (queryGet r1 ''scale'') = Inr qs
                 \<and> buildScaleMap qs Map.empty = Inr m
                 \<and> calculateBounds (intOutOfRange mc) fc m = Inr b
                 \<and> scene = Start 1280 720 # Rect 0 0 1280 720 ''fill:#18181b'' # els @ [End]
                 \<and> map (renderFeature mc (sprintf1f env1) b m) (Features fc) = map Inr els))"
proof
  show "mapHandler mc env1 r1 = mapHandler mc env2 r2"
    using assms by (simp add: mapHandler_def Let_def cong: sum.case_cong)
next
  show "\<forall>ctype scene data fc.
               mapHandler mc env1 r1 = Written ctype (Markup scene)
               \<and> readFile env1 ''japan.geojson'' = Inr data
               \<and> unmarshalFeatureCollection env1 data = Inr fc \<longrightarrow>
               (\<exists>qs m b els. jsonUnmarshal env1 (queryGet r1 ''scale'') = Inr qs
                 \<and> buildScaleMap qs Map.empty = Inr m
                 \<and> calculateBounds (intOutOfRange mc) fc m = Inr b
                 \<and> scene = Start 1280 720 # Rect 0 0 1280 720 ''fill:#18181b'' # els @ [End]
                 \<and> map (renderFeature mc (sprintf1f env1) b m) (Features fc) = map Inr els)"
    using mapHandler_scene by blast
qed

theorem mapHandler_svg_deterministic_witness:
  "mapHandler exactMachine (exampleEnv [\<lparr>ID = 1, Scale = 3\<rparr>] \<lparr>Features = [squareRegion]\<rparr>)
       (exampleRequest ''payload'')
   = mapHandler exactMachine
       ((exampleEnv [\<lparr>ID = 1, Scale = 3\<rparr>] \<lparr>Features = [squareRegion]\<rparr>)
          \<lparr>svgToPNG := \<lambda>scene w h footer. Inl ''no font''\<rparr>)
       \<lparr>query = [''scale'' \<mapsto> ''payload'', ''format'' \<mapsto> ''svg'', ''footer'' \<mapsto> ''caption'']\<rparr>"
  using mapHandler_svg_deterministic
          [where mc = exactMachine
             and ?env1.0 = "exampleEnv [\<lparr>ID = 1, Scale = 3\<rparr>] \<lparr>Features = [squareRegion]\<rparr>"
             and ?env2.0 = "(exampleEnv [\<lparr>ID = 1, Scale = 3\<rparr>] \<lparr>Features = [squareRegion]\<rparr>)
                 \<lparr>svgToPNG := \<lambda>scene w h footer. Inl ''no font''\<rparr>"
             and ?r1.0 = "exampleRequest ''payload''"
             and ?r2.0 = "\<lparr>query = [''scale'' \<mapsto> ''payload'', ''format'' \<mapsto> ''svg'', ''footer'' \<mapsto> ''caption'']\<rparr>"]
  by (simp add: exampleEnv_def exampleRequest_def queryGet_def)

section \<open>The projection in exact arithmetic\<close>

text \<open>
  The formulas of \<open>funcToScreen\<close> on the machine without rounding, for non-zero spans.
  The \<open>float64\<close> results of the program differ from these values by the rounding of
  every operation and of \<open>math.Cos\<close>.
\<close>

lemma funcToScreen_exact:
  assumes "(maxLon - minLon) * cos ((maxLat + minLat) / 2 * pi / 180) \<noteq> 0"
    and "maxLat \<noteq> minLat"
  shows "funcToScreen exactMachine (minLon, minLat, maxLon, maxLat) lon lat =
     (Some (((lon - (maxLon + minLon) / 2) * cos ((maxLat + minLat) / 2 * pi / 180))
        * min (1024 / ((maxLon - minLon) * cos ((maxLat + minLat) / 2 * pi / 180)))
              (576 / (maxLat - minLat)) + 640),
      Some (((maxLat + minLat) / 2 - lat)
        * min (1024 / ((maxLon - minLon) * cos ((maxLat + minLat) / 2 * pi / 180)))
              (576 / (maxLat - minLat)) + 360))"
  using assms
  by (simp add: funcToScreen_def CANVAS_WIDTH_def CANVAS_HEIGHT_def Let_def exactMachine_def
        exact2_def exactDiv_def exactLess_def min_go_def min_def)

text \<open>Between the poles the longitude correction is positive.\<close>

lemma lonCorrection_pos:
  fixes minLat maxLat :: real
  assumes "minLat < maxLat" "- 90 \<le> minLat" "maxLat \<le> 90"
  shows "0 < cos ((maxLat + minLat) / 2 * pi / 180)"
proof (rule cos_gt_zero_pi)
  have "- 90 < (maxLat + minLat) / 2" "(maxLat + minLat) / 2 < 90"
    using assms by simp_all
  then have "- 90 * (pi / 180) < (maxLat + minLat) / 2 * (pi / 180)"
    and "(maxLat + minLat) / 2 * (pi / 180) < 90 * (pi / 180)"
    by (simp_all only: mult_strict_right_mono pi_gt_zero divide_pos_pos zero_less_numeral)
  then show "- (pi / 2) < (maxLat + minLat) / 2 * pi / 180"
    and "(maxLat + minLat) / 2 * pi / 180 < pi / 2"
    by simp_all
qed

lemma twice_half: "2 * (a / 2) = (a::real)"
  by simp

text \<open>An offset of at most half a span, scaled to fit the span into \<open>k\<close>, is at most \<open>k / 2\<close>.\<close>

lemma scaled_offset_bound:
  fixes d h k s :: real
  assumes "\<bar>d\<bar> \<le> h" "0 < h" "0 < s" "s \<le> k / (2 * h)"
  shows "\<bar>d * s\<bar> \<le> k / 2"
proof -
  have "\<bar>d * s\<bar> = \<bar>d\<bar> * s"
    using assms(3) by (simp add: abs_mult)
  also have "\<dots> \<le> h * s"
    using assms(1,3) by (simp add: mult_right_mono)
  also have "\<dots> \<le> h * (k / (2 * h))"
    using assms(2,4) by (intro mult_left_mono) simp_all
  also have "\<dots> = k / 2"
    using assms(2) by simp
  finally show ?thesis .
qed

text \<open>
  Without rounding, for a box with \<open>minLon < maxLon\<close> and \<open>minLat < maxLat\<close> between
  the poles, the centre of the box is mapped to (640, 360) and every point of the box
  into the inset area, 128 to 1152 across and 72 to 648 down. The bounds are attained
  at the corners, so they leave no room for the rounding of \<open>float64\<close>.
\<close>

lemma funcToScreen_exact_fits:
  assumes lon: "minLon < maxLon" and lat: "minLat < maxLat"
    and south: "- 90 \<le> minLat" and north: "maxLat \<le> 90"
  shows "funcToScreen exactMachine (minLon, minLat, maxLon, maxLat)
             ((maxLon + minLon) / 2) ((maxLat + minLat) / 2) = (Some 640, Some 360)
         \<and> (minLon \<le> x \<and> x \<le> maxLon \<and> minLat \<le> y \<and> y \<le> maxLat \<longrightarrow>
              (\<exists>px py. funcToScreen exactMachine (minLon, minLat, maxLon, maxLat) x y = (Some px, Some py)
                 \<and> 128 \<le> px \<and> px \<le> 1152 \<and> 72 \<le> py \<and> py \<le> 648))"
proof (intro conjI impI)
  define c where "c = cos ((maxLat + minLat) / 2 * pi / 180)"
  define s where "s = min (1024 / ((maxLon - minLon) * c)) (576 / (maxLat - minLat))"
  have cpos: "0 < c"
    unfolding c_def using lat south north by (rule lonCorrection_pos)
  have spans: "(maxLon - minLon) * cos ((maxLat + minLat) / 2 * pi / 180) \<noteq> 0" "maxLat \<noteq> minLat"
    using cpos lon lat by (simp_all add: c_def)
  have formula: "\<And>u v. funcToScreen exactMachine (minLon, minLat, maxLon, maxLat) u v
      = (Some ((u - (maxLon + minLon) / 2) * c * s + 640), Some (((maxLat + minLat) / 2 - v) * s + 360))"
    by (simp add: funcToScreen_exact [OF spans] c_def s_def)
  show "funcToScreen exactMachine (minLon, minLat, maxLon, maxLat)
             ((maxLon + minLon) / 2) ((maxLat + minLat) / 2) = (Some 640, Some 360)"
    by (simp add: formula)
  assume box: "minLon \<le> x \<and> x \<le> maxLon \<and> minLat \<le> y \<and> y \<le> maxLat"
  have spos: "0 < s"
    unfolding s_def using cpos lon lat by simp
  have sx: "s \<le> 1024 / ((maxLon - minLon) * c)" and sy: "s \<le> 576 / (maxLat - minLat)"
    unfolding s_def by simp_all
  from box have inside: "minLon \<le> x" "x \<le> maxLon" "minLat \<le> y" "y \<le> maxLat"
    by simp_all
  have "\<bar>x - (maxLon + minLon) / 2\<bar> \<le> (maxLon - minLon) / 2"
    using inside(1,2) by (simp add: abs_le_iff field_simps)
  then have "\<bar>x - (maxLon + minLon) / 2\<bar> * c \<le> (maxLon - minLon) / 2 * c"
    using cpos by (intro mult_right_mono) simp_all
  then have "\<bar>(x - (maxLon + minLon) / 2) * c\<bar> \<le> (maxLon - minLon) / 2 * c"
    using cpos by (simp add: abs_mult)
  moreover have "0 < (maxLon - minLon) / 2 * c"
    using lon cpos by simp
  moreover note spos
  moreover have "s \<le> 1024 / (2 * ((maxLon - minLon) / 2 * c))"
    using sx by (simp only: twice_half mult.assoc [symmetric])
  ultimately have xb: "\<bar>(x - (maxLon + minLon) / 2) * c * s\<bar> \<le> 1024 / 2"
    by (rule scaled_offset_bound)
  have "\<bar>(maxLat + minLat) / 2 - y\<bar> \<le> (maxLat - minLat) / 2"
    using inside(3,4) by (simp add: abs_le_iff field_simps)
  moreover have "0 < (maxLat - minLat) / 2"
    using lat by simp
  moreover note spos
  moreover have "s \<le> 576 / (2 * ((maxLat - minLat) / 2))"
    using sy by (simp only: twice_half)
  ultimately have yb: "\<bar>((maxLat + minLat) / 2 - y) * s\<bar> \<le> 576 / 2"
    by (rule scaled_offset_bound)
  show "\<exists>px py. funcToScreen exactMachine (minLon, minLat, maxLon, maxLat) x y = (Some px, Some py)
                 \<and> 128 \<le> px \<and> px \<le> 1152 \<and> 72 \<le> py \<and> py \<le> 648"
    using xb yb by (simp add: formula abs_le_iff)
qed

end
